theory Spec2Isabelle
  imports Main "HOL-Library.Word" "HOL-Library.Sublist"
begin

section \<open>Go values used by the overlayxfs driver\<close>

text \<open>
  Go's \<open>int64\<close> and \<open>uint64\<close> are both 64-bit words; \<open>sint\<close> reads the first,
  \<open>uint\<close> and \<open>unat\<close> read the second. A Go \<open>string\<close> is a byte string.
\<close>

type_synonym int64 = "64 word"
type_synonym uint64 = "64 word"

text \<open>The conversion \<open>uint64(x)\<close> of an \<open>int64\<close>: the same value modulo \<open>2 ^ 64\<close>.\<close>

definition uint64_of_int64 :: "int64 \<Rightarrow> uint64" where
  "uint64_of_int64 x = word_of_int (sint x)"

text \<open>The permission bits \<open>0700\<close> (an octal literal in the source).\<close>

definition perm_0700 :: nat where
  "perm_0700 = 7 * 8 ^ 2"

datatype errno = ENOENT | EEXIST | ENOTEMPTY | EBUSY | EINVAL | EPERM | EACCES | EIO | ENOSPC | ENODEV

fun errno_Error :: "errno \<Rightarrow> string" where
  "errno_Error ENOENT = ''no such file or directory''"
| "errno_Error EEXIST = ''file exists''"
| "errno_Error ENOTEMPTY = ''directory not empty''"
| "errno_Error EBUSY = ''device or resource busy''"
| "errno_Error EINVAL = ''invalid argument''"
| "errno_Error EPERM = ''operation not permitted''"
| "errno_Error EACCES = ''permission denied''"
| "errno_Error EIO = ''input/output error''"
| "errno_Error ENOSPC = ''no space left on device''"
| "errno_Error ENODEV = ''no such device''"

text \<open>
  Go error values, by their structure: a bare \<open>syscall.Errno\<close>, an \<open>*os.PathError\<close>
  (operation, path, cause), an error of the quota library, the result of
  \<open>errors.Wrap\<close> (cause, message) and the result of \<open>fmt.Errorf\<close> (its text).
  The Go type \<open>error\<close> is \<open>go_error option\<close>, with \<open>None\<close> for \<open>nil\<close>.
\<close>

datatype go_error =
    Errno errno
  | PathError string string errno
  | QuotaError string errno
  | Wrapped go_error string
  | Errorf string

fun Error :: "go_error \<Rightarrow> string" where
  "Error (Errno e) = errno_Error e"
| "Error (PathError opn p e) = opn @ '' '' @ p @ '': '' @ errno_Error e"
| "Error (QuotaError opn e) = opn @ '': '' @ errno_Error e"
| "Error (Wrapped cause msg) = msg @ '': '' @ Error cause"
| "Error (Errorf msg) = msg"

text \<open>\<open>errors.Wrap(err, msg)\<close> of github.com/pkg/errors: \<open>nil\<close> stays \<open>nil\<close>.\<close>

fun errors_Wrap :: "go_error option \<Rightarrow> string \<Rightarrow> go_error option" where
  "errors_Wrap None msg = None"
| "errors_Wrap (Some e) msg = Some (Wrapped e msg)"

text \<open>
  \<open>os.IsNotExist(err)\<close>: looks through a \<open>PathError\<close> for \<open>ENOENT\<close>; it does not
  look through an \<open>errors.Wrap\<close>.
\<close>

fun os_IsNotExist :: "go_error option \<Rightarrow> bool" where
  "os_IsNotExist None = False"
| "os_IsNotExist (Some (Errno e)) = (e = ENOENT)"
| "os_IsNotExist (Some (PathError opn p e)) = (e = ENOENT)"
| "os_IsNotExist (Some (QuotaError opn e)) = False"
| "os_IsNotExist (Some (Wrapped cause msg)) = False"
| "os_IsNotExist (Some (Errorf msg)) = False"

text \<open>
  A function that panics does not return: its result is \<open>Panic\<close> with the panic's
  value, and no state comes back.
\<close>

datatype 'a outcome = Panic string | Return 'a

section \<open>Paths: \<open>filepath.Join\<close> on Unix\<close>

text \<open>\<open>strings.Split(s, "/")\<close> and \<open>strings.Join(elems, sep)\<close>.\<close>

fun split_sep :: "string \<Rightarrow> string list" where
  "split_sep [] = [[]]"
| "split_sep (c # cs) =
     (if c = CHR ''/'' then [] # split_sep cs
      else (case split_sep cs of [] \<Rightarrow> [[c]] | x # xs \<Rightarrow> (c # x) # xs))"

fun strings_Join :: "string list \<Rightarrow> string \<Rightarrow> string" where
  "strings_Join [] sep = []"
| "strings_Join [e] sep = e"
| "strings_Join (e # es) sep = e @ sep @ strings_Join es sep"

text \<open>
  \<open>filepath.Clean\<close>, component by component. \<open>out\<close> is the cleaned path so far, last
  component first: empty and \<open>.\<close> components are dropped; \<open>..\<close> removes the last real
  component, is kept when the path is relative and nothing real is left, and is dropped
  at the root.
\<close>

fun clean_elems :: "bool \<Rightarrow> string list \<Rightarrow> string list \<Rightarrow> string list" where
  "clean_elems rooted out [] = rev out"
| "clean_elems rooted out (e # es) =
     (if e = [] \<or> e = ''.'' then clean_elems rooted out es
      else if e = ''..'' then
        (case out of
           [] \<Rightarrow> if rooted then clean_elems rooted out es else clean_elems rooted [''..''] es
         | e' # below \<Rightarrow>
             if e' = ''..'' then clean_elems rooted (''..'' # out) es
             else clean_elems rooted below es)
      else clean_elems rooted (e # out) es)"

definition filepath_Clean :: "string \<Rightarrow> string" where
  "filepath_Clean p =
     (if p = [] then ''.''
      else
        (let rooted = (hd p = CHR ''/'');
             res = (if rooted then ''/'' else []) @ strings_Join (clean_elems rooted [] (split_sep p)) ''/''
         in if res = [] then ''.'' else res))"

text \<open>\<open>filepath.Join\<close>: leading empty elements are skipped, the rest joined and cleaned.\<close>

definition filepath_Join :: "string list \<Rightarrow> string" where
  "filepath_Join elem =
     (case dropWhile (\<lambda>e. e = []) elem of
        [] \<Rightarrow> []
      | es \<Rightarrow> filepath_Clean (strings_Join es ''/''))"

section \<open>The operating system, as far as the driver touches it\<close>

text \<open>
  The driver works only through calls into the operating system and the quota library.
  The state holds the directory entries with their permission bits, the mount table
  (latest mount first), the project quotas, a table of calls that the environment makes
  fail (permissions, an unsupported file system, a busy device), and the log of the calls
  made so far with the result of each. The logger of the source only observes and is left
  out.
\<close>

datatype call =
    Stat string
  | Mkdir string nat
  | Mount string string string nat string
  | Unmount string int
  | Remove string
  | RemoveAll string
  | NewControl string
  | SetQuota string uint64

record mount_entry =
  m_source :: string
  m_target :: string
  m_fstype :: string
  m_flags :: nat
  m_data :: string

record os_state =
  nodes :: "(string \<times> nat) list"
  mounts :: "mount_entry list"
  quotas :: "(string \<times> uint64) list"
  faults :: "(call \<times> errno) list"
  trace :: "(call \<times> errno option) list"

text \<open>The root and the working directory always exist; other paths exist when listed.\<close>

definition path_exists :: "os_state \<Rightarrow> string \<Rightarrow> bool" where
  "path_exists s p = (p = ''/'' \<or> p = ''.'' \<or> p \<in> set (map fst (nodes s)))"

text \<open>The directory a path lies in: everything before its last separator.\<close>

definition parent_path :: "string \<Rightarrow> string" where
  "parent_path p =
     (if CHR ''/'' \<notin> set p then ''.''
      else
        (let d = rev (drop 1 (dropWhile (\<lambda>c. c \<noteq> CHR ''/'') (rev p)))
         in if d = [] then ''/'' else d))"

text \<open>\<open>under p q\<close>: \<open>q\<close> is \<open>p\<close> itself or lies below it.\<close>

definition under :: "string \<Rightarrow> string \<Rightarrow> bool" where
  "under p q = (q = p \<or> prefix (if p = ''/'' then p else p @ ''/'') q)"

definition is_mounted :: "os_state \<Rightarrow> string \<Rightarrow> bool" where
  "is_mounted s p = (p \<in> set (map m_target (mounts s)))"

fun remove_mount :: "string \<Rightarrow> mount_entry list \<Rightarrow> mount_entry list" where
  "remove_mount t [] = []"
| "remove_mount t (m # ms) = (if m_target m = t then ms else m # remove_mount t ms)"

text \<open>
  The error a call meets on its own, when the environment does not make it fail.
  A removed directory must be empty and not a mount point; \<open>os.RemoveAll\<close> accepts a
  path that does not exist.
\<close>

fun check :: "call \<Rightarrow> os_state \<Rightarrow> errno option" where
  "check (Stat p) s = (if path_exists s p then None else Some ENOENT)"
| "check (Mkdir p mode) s =
     (if path_exists s p then Some EEXIST
      else if \<not> path_exists s (parent_path p) then Some ENOENT
      else None)"
| "check (Mount src tgt fstype fl dat) s = (if path_exists s tgt then None else Some ENOENT)"
| "check (Unmount tgt fl) s =
     (if \<not> path_exists s tgt then Some ENOENT
      else if \<not> is_mounted s tgt then Some EINVAL
      else None)"
| "check (Remove p) s =
     (if \<not> path_exists s p then Some ENOENT
      else if is_mounted s p then Some EBUSY
      else if (\<exists>q \<in> set (map fst (nodes s)). under p q \<and> q \<noteq> p) then Some ENOTEMPTY
      else None)"
| "check (RemoveAll p) s =
     (if (\<exists>t \<in> set (map m_target (mounts s)). under p t) then Some EBUSY else None)"
| "check (NewControl p) s = (if path_exists s p then None else Some ENOENT)"
| "check (SetQuota p q) s = (if path_exists s p then None else Some ENOENT)"

text \<open>What a call changes when it succeeds.\<close>

fun effect :: "call \<Rightarrow> os_state \<Rightarrow> os_state" where
  "effect (Stat p) s = s"
| "effect (Mkdir p mode) s = s\<lparr>nodes := nodes s @ [(p, mode)]\<rparr>"
| "effect (Mount src tgt fstype fl dat) s =
     s\<lparr>mounts := \<lparr>m_source = src, m_target = tgt, m_fstype = fstype, m_flags = fl, m_data = dat\<rparr> # mounts s\<rparr>"
| "effect (Unmount tgt fl) s = s\<lparr>mounts := remove_mount tgt (mounts s)\<rparr>"
| "effect (Remove p) s = s\<lparr>nodes := filter (\<lambda>(q, m). q \<noteq> p) (nodes s)\<rparr>"
| "effect (RemoveAll p) s = s\<lparr>nodes := filter (\<lambda>(q, m). \<not> under p q) (nodes s)\<rparr>"
| "effect (NewControl p) s = s"
| "effect (SetQuota p q) s = s\<lparr>quotas := (p, q) # filter (\<lambda>(k, v). k \<noteq> p) (quotas s)\<rparr>"

text \<open>
  \<open>os.Stat\<close> is the existence test the driver uses it as: the environment does not make
  it fail. Every other call fails when the environment says so, and otherwise as
  \<open>check\<close> says.
\<close>

fun injected :: "os_state \<Rightarrow> call \<Rightarrow> errno option" where
  "injected s (Stat p) = None"
| "injected s c = map_of (faults s) c"

definition result_of :: "call \<Rightarrow> os_state \<Rightarrow> errno option" where
  "result_of c s = (case injected s c of Some e \<Rightarrow> Some e | None \<Rightarrow> check c s)"

text \<open>
  One call: a failed call changes nothing; every call is logged with its result.
\<close>

definition syscall :: "call \<Rightarrow> os_state \<Rightarrow> errno option \<times> os_state" where
  "syscall c s =
     (let r = result_of c s;
          s' = (if r = None then effect c s else s)
      in (r, s'\<lparr>trace := trace s' @ [(c, r)]\<rparr>))"

text \<open>The library functions the driver calls, with the error values they return.\<close>

definition os_Stat :: "string \<Rightarrow> os_state \<Rightarrow> go_error option \<times> os_state" where
  "os_Stat p s = (let (r, s') = syscall (Stat p) s in (map_option (PathError ''stat'' p) r, s'))"

definition os_Mkdir :: "string \<Rightarrow> nat \<Rightarrow> os_state \<Rightarrow> go_error option \<times> os_state" where
  "os_Mkdir p mode s =
     (let (r, s') = syscall (Mkdir p mode) s in (map_option (PathError ''mkdir'' p) r, s'))"

definition os_Remove :: "string \<Rightarrow> os_state \<Rightarrow> go_error option \<times> os_state" where
  "os_Remove p s = (let (r, s') = syscall (Remove p) s in (map_option (PathError ''remove'' p) r, s'))"

definition os_RemoveAll :: "string \<Rightarrow> os_state \<Rightarrow> go_error option \<times> os_state" where
  "os_RemoveAll p s =
     (let (r, s') = syscall (RemoveAll p) s in (map_option (PathError ''unlinkat'' p) r, s'))"

definition syscall_Mount ::
  "string \<Rightarrow> string \<Rightarrow> string \<Rightarrow> nat \<Rightarrow> string \<Rightarrow> os_state \<Rightarrow> go_error option \<times> os_state" where
  "syscall_Mount src tgt fstype fl dat s =
     (let (r, s') = syscall (Mount src tgt fstype fl dat) s in (map_option Errno r, s'))"

definition syscall_Unmount :: "string \<Rightarrow> int \<Rightarrow> os_state \<Rightarrow> go_error option \<times> os_state" where
  "syscall_Unmount tgt fl s = (let (r, s') = syscall (Unmount tgt fl) s in (map_option Errno r, s'))"

text \<open>
  The quota library (\<open>quota.NewControl\<close>, \<open>Control.SetQuota\<close>): a control is known by
  the base path it was made for; the library's own bookkeeping is not modelled.
\<close>

datatype Control = Control string

record Quota =
  Size :: uint64

definition quota_NewControl :: "string \<Rightarrow> os_state \<Rightarrow> (Control \<times> go_error option) \<times> os_state" where
  "quota_NewControl basePath s =
     (let (r, s') = syscall (NewControl basePath) s
      in ((Control basePath, map_option (QuotaError ''quota control'') r), s'))"

definition quota_SetQuota ::
  "Control \<Rightarrow> string \<Rightarrow> Quota \<Rightarrow> os_state \<Rightarrow> go_error option \<times> os_state" where
  "quota_SetQuota ctl targetPath q s =
     (let (r, s') = syscall (SetQuota targetPath (Size q)) s
      in (map_option (QuotaError ''set quota'') r, s'))"

section \<open>The overlayxfs driver\<close>

definition UpperDir :: string where
  "UpperDir = ''diff''"

definition WorkDir :: string where
  "WorkDir = ''workdir''"

definition RootfsDir :: string where
  "RootfsDir = ''rootfs''"

text \<open>
  Modelled from the spec: the constants \<open>store.VolumesDirName\<close> and
  \<open>store.ImageDirName\<close> are declared in package \<open>store\<close>, which is not among the
  sources at hand; the store layout of the specification names the two directories
  \<open>volumes/\<close> and \<open>images/\<close>.
\<close>

definition VolumesDirName :: string where
  "VolumesDirName = ''volumes''"

definition ImageDirName :: string where
  "ImageDirName = ''images''"

record Driver =
  storePath :: string

definition NewDriver :: "string \<Rightarrow> Driver" where
  "NewDriver sp = \<lparr>storePath = sp\<rparr>"

text \<open>
  The declaration of \<open>image_cloner.ImageDriverSpec\<close> is not among the sources at hand.
  The record has the fields that \<open>driver.go\<close> reads, typed by their use there:
  \<open>ImagePath\<close> and \<open>BaseVolumePath\<close> are passed to \<open>os.Stat\<close>, so each is one
  string; \<open>DiskLimit\<close> is compared with \<open>0\<close> and converted by \<open>uint64(...)\<close>, so it
  is a signed 64-bit integer.
\<close>

record ImageDriverSpec =
  ImagePath :: string
  BaseVolumePath :: string
  DiskLimit :: int64

text \<open>
  Modelled from the spec: \<open>groot.VolumeStats\<close> is declared in package \<open>groot\<close>, which
  is not among the sources at hand; the specification gives the statistics the two byte
  counts exclusive-bytes-used and total-bytes-used.
\<close>

record VolumeStats =
  ExclusiveBytesUsed :: int64
  TotalBytesUsed :: int64

text \<open>\<open>Driver.VolumePath\<close> (driver.go, lines 34 to 42).\<close>

definition VolumePath ::
  "Driver \<Rightarrow> string \<Rightarrow> os_state \<Rightarrow> (string \<times> go_error option) \<times> os_state" where
  "VolumePath d vol_id s =
     (let volPath = filepath_Join [storePath d, VolumesDirName, vol_id];
          (err, s1) = os_Stat volPath s
      in case err of
           None \<Rightarrow> ((volPath, None), s1)
         | Some e \<Rightarrow>
             (([], Some (Errorf (''volume does not exist `'' @ vol_id @ ''`: '' @ Error e))), s1))"

text \<open>\<open>Driver.CreateVolume\<close> (lines 44 to 55). The parent id is not used.\<close>

definition CreateVolume ::
  "Driver \<Rightarrow> string \<Rightarrow> string \<Rightarrow> os_state \<Rightarrow> (string \<times> go_error option) \<times> os_state" where
  "CreateVolume d parentID vol_id s =
     (let volumePath = filepath_Join [storePath d, VolumesDirName, vol_id];
          (err, s1) = os_Mkdir volumePath perm_0700 s
      in if err \<noteq> None then (([], errors_Wrap err ''creating volume''), s1)
         else ((volumePath, None), s1))"

text \<open>\<open>Driver.DestroyVolume\<close> and \<open>Driver.Volumes\<close> (lines 57 to 63): both panic.\<close>

definition DestroyVolume ::
  "Driver \<Rightarrow> string \<Rightarrow> os_state \<Rightarrow> (go_error option \<times> os_state) outcome" where
  "DestroyVolume d vol_id s = Panic ''not implemented''"

definition Volumes ::
  "Driver \<Rightarrow> os_state \<Rightarrow> ((string list \<times> go_error option) \<times> os_state) outcome" where
  "Volumes d s = Panic ''not implemented''"

text \<open>\<open>Driver.applyDiskLimit\<close> (lines 137 to 164).\<close>

definition applyDiskLimit ::
  "Driver \<Rightarrow> ImageDriverSpec \<Rightarrow> os_state \<Rightarrow> go_error option \<times> os_state" where
  "applyDiskLimit d spec s =
     (if DiskLimit spec = 0 then (None, s)
      else
        (let imagesPath = filepath_Join [storePath d, ImageDirName];
             ((quotaControl, err), s1) = quota_NewControl imagesPath s
         in if err \<noteq> None
            then (errors_Wrap err (''creating xfs quota control '' @ imagesPath), s1)
            else
              (let quota = \<lparr>Size = uint64_of_int64 (DiskLimit spec)\<rparr>;
                   (err2, s2) = quota_SetQuota quotaControl (ImagePath spec) quota s1
               in if err2 \<noteq> None
                  then (errors_Wrap err2 (''setting quota to '' @ ImagePath spec), s2)
                  else (None, s2))))"

text \<open>
  \<open>Driver.CreateImage\<close> (lines 65 to 110). No failure path removes anything: each
  returns the wrapped error at once.
\<close>

definition CreateImage ::
  "Driver \<Rightarrow> ImageDriverSpec \<Rightarrow> os_state \<Rightarrow> go_error option \<times> os_state" where
  "CreateImage d spec s =
     (let (err1, s1) = os_Stat (ImagePath spec) s
      in if os_IsNotExist err1 then (errors_Wrap err1 ''image path does not exist'', s1)
      else
     (let (err2, s2) = os_Stat (BaseVolumePath spec) s1
      in if os_IsNotExist err2 then (errors_Wrap err2 ''base volume path does not exist'', s2)
      else
     (let upperDir = filepath_Join [ImagePath spec, UpperDir];
          workDir = filepath_Join [ImagePath spec, WorkDir];
          rootfsDir = filepath_Join [ImagePath spec, RootfsDir];
          (err3, s3) = applyDiskLimit d spec s2
      in if err3 \<noteq> None then (errors_Wrap err3 ''applying disk limits'', s3)
      else
     (let (err4, s4) = os_Mkdir upperDir perm_0700 s3
      in if err4 \<noteq> None then (errors_Wrap err4 ''creating upperdir folder'', s4)
      else
     (let (err5, s5) = os_Mkdir workDir perm_0700 s4
      in if err5 \<noteq> None then (errors_Wrap err5 ''creating workdir folder'', s5)
      else
     (let (err6, s6) = os_Mkdir rootfsDir perm_0700 s5
      in if err6 \<noteq> None then (errors_Wrap err6 ''creating rootfs folder'', s6)
      else
     (let mountData =
            ''lowerdir='' @ BaseVolumePath spec @ '',upperdir='' @ upperDir @ '',workdir='' @ workDir;
          (err7, s7) = syscall_Mount ''overlay'' rootfsDir ''overlay'' 0 mountData s6
      in if err7 \<noteq> None then (errors_Wrap err7 ''mounting overlay'', s7)
      else (None, s7))))))))"

text \<open>\<open>Driver.DestroyImage\<close> (lines 112 to 135).\<close>

definition DestroyImage :: "Driver \<Rightarrow> string \<Rightarrow> os_state \<Rightarrow> go_error option \<times> os_state" where
  "DestroyImage d imagePath s =
     (let (err1, s1) = syscall_Unmount (filepath_Join [imagePath, RootfsDir]) 0 s
      in if err1 \<noteq> None then (errors_Wrap err1 ''unmounting rootfs folder'', s1)
      else
     (let (err2, s2) = os_Remove (filepath_Join [imagePath, RootfsDir]) s1
      in if err2 \<noteq> None then (errors_Wrap err2 ''deleting rootfs folder'', s2)
      else
     (let (err3, s3) = os_RemoveAll (filepath_Join [imagePath, WorkDir]) s2
      in if err3 \<noteq> None then (errors_Wrap err3 ''deleting workdir folder'', s3)
      else
     (let (err4, s4) = os_RemoveAll (filepath_Join [imagePath, UpperDir]) s3
      in if err4 \<noteq> None then (errors_Wrap err4 ''deleting upperdir folder'', s4)
      else (None, s4)))))"

text \<open>\<open>Driver.FetchStats\<close> (lines 166 to 168): panics.\<close>

definition FetchStats ::
  "Driver \<Rightarrow> string \<Rightarrow> os_state \<Rightarrow> ((VolumeStats \<times> go_error option) \<times> os_state) outcome" where
  "FetchStats d path s = Panic ''not implemented''"

section \<open>A store to run the driver on\<close>

text \<open>
  A store at \<open>/store\<close> with two volumes and the directory of one image, nothing mounted,
  no quota set, no call made to fail. \<open>mounted_store\<close> is the same store after the
  image was created from volume \<open>b\<close>.
\<close>

definition example_driver :: Driver where
  "example_driver = NewDriver ''/store''"

definition example_store :: os_state where
  "example_store =
     \<lparr>nodes = [(''/store'', 493), (''/store/volumes'', 493), (''/store/images'', 493),
               (''/store/volumes/a'', 448), (''/store/volumes/b'', 448),
               (''/store/images/img'', 448)],
      mounts = [], quotas = [], faults = [], trace = []\<rparr>"

definition example_spec :: ImageDriverSpec where
  "example_spec =
     \<lparr>ImagePath = ''/store/images/img'', BaseVolumePath = ''/store/volumes/b'', DiskLimit = 0\<rparr>"

definition example_mount :: call where
  "example_mount =
     Mount ''overlay'' ''/store/images/img/rootfs'' ''overlay'' 0
       ''lowerdir=/store/volumes/b,upperdir=/store/images/img/diff,workdir=/store/images/img/workdir''"

definition mounted_store :: os_state where
  "mounted_store =
     \<lparr>nodes = [(''/store'', 493), (''/store/volumes'', 493), (''/store/images'', 493),
               (''/store/volumes/a'', 448), (''/store/volumes/b'', 448),
               (''/store/images/img'', 448), (''/store/images/img/diff'', 448),
               (''/store/images/img/workdir'', 448), (''/store/images/img/rootfs'', 448)],
      mounts = [\<lparr>m_source = ''overlay'', m_target = ''/store/images/img/rootfs'',
                 m_fstype = ''overlay'', m_flags = 0,
                 m_data = ''lowerdir=/store/volumes/b,upperdir=/store/images/img/diff,workdir=/store/images/img/workdir''\<rparr>],
      quotas = [], faults = [], trace = []\<rparr>"

text \<open>The calls a driver operation made: the log of \<open>s'\<close> beyond the log of \<open>s\<close>.\<close>

definition new_trace :: "os_state \<Rightarrow> os_state \<Rightarrow> (call \<times> errno option) list" where
  "new_trace s s' = drop (length (trace s)) (trace s')"

text \<open>Kinds of calls, for speaking about the log.\<close>

fun is_Mkdir :: "call \<Rightarrow> bool" where
  "is_Mkdir (Mkdir p mode) = True"
| "is_Mkdir c = False"

fun is_Mount :: "call \<Rightarrow> bool" where
  "is_Mount (Mount src tgt fstype fl dat) = True"
| "is_Mount c = False"

fun is_removal :: "call \<Rightarrow> bool" where
  "is_removal (Remove p) = True"
| "is_removal (RemoveAll p) = True"
| "is_removal c = False"

text \<open>
  The \<open>lowerdir\<close> option as the specification words it, for a chain of base volume
  paths: the paths joined by colons, in chain order. The driver has no such function; it
  is here to be compared with what the driver mounts.
\<close>

definition chain_lowerdir :: "string list \<Rightarrow> string" where
  "chain_lowerdir chain = strings_Join chain '':''"

text \<open>The example store in an environment where the overlay mount is refused.\<close>

definition mount_refused_store :: os_state where
  "mount_refused_store = example_store\<lparr>faults := [(example_mount, ENODEV)]\<rparr>"

text \<open>
  The mounted store in an environment where the rootfs is busy and cannot be unmounted,
  and in one where the work directory cannot be removed.
\<close>

definition busy_store :: os_state where
  "busy_store = mounted_store\<lparr>faults := [(Unmount ''/store/images/img/rootfs'' 0, EBUSY)]\<rparr>"

definition stuck_workdir_store :: os_state where
  "stuck_workdir_store =
     mounted_store\<lparr>faults := [(RemoveAll ''/store/images/img/workdir'', EACCES)]\<rparr>"

text \<open>
  Three more specs for the example image: with a disk limit of 1024 bytes, with the
  negative disk limit \<open>-1\<close>, and with the two volumes of a chain joined by a colon in
  the field for the base volume path.
\<close>

definition limited_spec :: ImageDriverSpec where
  "limited_spec = example_spec\<lparr>DiskLimit := 1024\<rparr>"

definition negative_spec :: ImageDriverSpec where
  "negative_spec = example_spec\<lparr>DiskLimit := - 1\<rparr>"

definition chain_spec :: ImageDriverSpec where
  "chain_spec = example_spec\<lparr>BaseVolumePath := ''/store/volumes/a:/store/volumes/b''\<rparr>"

section \<open>Facts about single calls\<close>

lemma trace_effect: "trace (effect c s) = trace s"
  by (cases c) simp_all

lemma faults_effect: "faults (effect c s) = faults s"
  by (cases c) simp_all

lemma syscall_result: "fst (syscall c s) = result_of c s"
  by (simp add: syscall_def Let_def)

lemma syscall_trace: "trace (snd (syscall c s)) = trace s @ [(c, result_of c s)]"
  by (simp add: syscall_def Let_def trace_effect)

lemma syscall_nodes:
  "nodes (snd (syscall c s)) = (if result_of c s = None then nodes (effect c s) else nodes s)"
  by (simp add: syscall_def Let_def)

lemma syscall_mounts:
  "mounts (snd (syscall c s)) = (if result_of c s = None then mounts (effect c s) else mounts s)"
  by (simp add: syscall_def Let_def)

lemma syscall_quotas:
  "quotas (snd (syscall c s)) = (if result_of c s = None then quotas (effect c s) else quotas s)"
  by (simp add: syscall_def Let_def)

lemma syscall_faults: "faults (snd (syscall c s)) = faults s"
  by (simp add: syscall_def Let_def faults_effect)

text \<open>Each library function is its call, with the error wrapped as the library does.\<close>

lemma os_Stat_eq:
  "os_Stat p s =
     (map_option (PathError ''stat'' p) (result_of (Stat p) s), snd (syscall (Stat p) s))"
  by (simp add: os_Stat_def syscall_result [symmetric] split: prod.splits)

lemma os_Mkdir_eq:
  "os_Mkdir p m s =
     (map_option (PathError ''mkdir'' p) (result_of (Mkdir p m) s), snd (syscall (Mkdir p m) s))"
  by (simp add: os_Mkdir_def syscall_result [symmetric] split: prod.splits)

lemma os_Remove_eq:
  "os_Remove p s =
     (map_option (PathError ''remove'' p) (result_of (Remove p) s), snd (syscall (Remove p) s))"
  by (simp add: os_Remove_def syscall_result [symmetric] split: prod.splits)

lemma os_RemoveAll_eq:
  "os_RemoveAll p s =
     (map_option (PathError ''unlinkat'' p) (result_of (RemoveAll p) s),
      snd (syscall (RemoveAll p) s))"
  by (simp add: os_RemoveAll_def syscall_result [symmetric] split: prod.splits)

lemma syscall_Mount_eq:
  "syscall_Mount a b c f dat s =
     (map_option Errno (result_of (Mount a b c f dat) s), snd (syscall (Mount a b c f dat) s))"
  by (simp add: syscall_Mount_def syscall_result [symmetric] split: prod.splits)

lemma syscall_Unmount_eq:
  "syscall_Unmount t f s =
     (map_option Errno (result_of (Unmount t f) s), snd (syscall (Unmount t f) s))"
  by (simp add: syscall_Unmount_def syscall_result [symmetric] split: prod.splits)

lemma quota_NewControl_eq:
  "quota_NewControl p s =
     ((Control p, map_option (QuotaError ''quota control'') (result_of (NewControl p) s)),
      snd (syscall (NewControl p) s))"
  by (simp add: quota_NewControl_def syscall_result [symmetric] split: prod.splits)

lemma quota_SetQuota_eq:
  "quota_SetQuota ctl p q s =
     (map_option (QuotaError ''set quota'') (result_of (SetQuota p (Size q)) s),
      snd (syscall (SetQuota p (Size q)) s))"
  by (simp add: quota_SetQuota_def syscall_result [symmetric] split: prod.splits)

lemmas lib_eqs = os_Stat_eq os_Mkdir_eq os_Remove_eq os_RemoveAll_eq syscall_Mount_eq
  syscall_Unmount_eq quota_NewControl_eq quota_SetQuota_eq

lemma result_of_Stat: "result_of (Stat p) s = (if path_exists s p then None else Some ENOENT)"
  by (simp add: result_of_def)

lemma snd_syscall_Stat:
  "snd (syscall (Stat p) s) = s\<lparr>trace := trace s @ [(Stat p, result_of (Stat p) s)]\<rparr>"
  by (simp add: syscall_def Let_def)

lemma result_of_Mkdir:
  "result_of (Mkdir p m) s =
     (case map_of (faults s) (Mkdir p m) of
        Some e \<Rightarrow> Some e
      | None \<Rightarrow> if path_exists s p then Some EEXIST
                else if \<not> path_exists s (parent_path p) then Some ENOENT else None)"
  by (simp add: result_of_def split: option.splits)

lemma sublist_between: "sublist x (a @ x @ b)"
  unfolding sublist_def by blast

section \<open>Unimplemented operations\<close>

text \<open>
  C2 (as the code has it). For every volume id and every store, \<open>DestroyVolume\<close> panics
  with "not implemented": it removes nothing and never returns, neither success nor an
  error, whether the volume exists or not.
\<close>

theorem DestroyVolume_not_implemented:
  "DestroyVolume d vol_id s = Panic ''not implemented''"
  by (simp add: DestroyVolume_def)

text \<open>
  C2 as claimed fails: for the volume id \<open>gone\<close>, absent from the example store,
  destroy-volume does not return success; it panics.
\<close>

theorem DestroyVolume_absent_volume_panics:
  "\<not> path_exists example_store ''/store/volumes/gone''
   \<and> DestroyVolume example_driver ''gone'' example_store \<noteq> Return (None, example_store)
   \<and> DestroyVolume example_driver ''gone'' example_store = Panic ''not implemented''"
  by (simp add: DestroyVolume_def path_exists_def example_store_def)

text \<open>
  C3 (as the code has it). For every image path and every store, \<open>FetchStats\<close> panics
  with "not implemented": it returns no statistics and reads no quota report.
\<close>

theorem FetchStats_not_implemented:
  "FetchStats d path s = Panic ''not implemented''"
  by (simp add: FetchStats_def)

text \<open>
  C3 as claimed fails: on the image of the mounted example store, the stats operation
  returns no pair of byte counts, whatever the counts; it panics.
\<close>

theorem FetchStats_mounted_image_panics:
  "path_exists mounted_store ''/store/images/img/diff''
   \<and> FetchStats example_driver ''/store/images/img'' mounted_store = Panic ''not implemented''"
  by (simp add: FetchStats_def path_exists_def mounted_store_def)

section \<open>Volumes\<close>

lemma VolumePath_eq:
  "VolumePath d vol_id s =
     (let volPath = filepath_Join [storePath d, VolumesDirName, vol_id];
          s' = s\<lparr>trace := trace s @ [(Stat volPath, result_of (Stat volPath) s)]\<rparr>
      in if path_exists s volPath then ((volPath, None), s')
         else (([], Some (Errorf (''volume does not exist `'' @ vol_id @ ''`: ''
                  @ Error (PathError ''stat'' volPath ENOENT)))), s'))"
  by (simp add: VolumePath_def lib_eqs result_of_Stat snd_syscall_Stat Let_def)

text \<open>
  C9. For every volume id, with \<open>volPath\<close> the joined path store-path/volumes/id:
  \<open>VolumePath\<close> returns \<open>volPath\<close> and no error when \<open>volPath\<close> exists; when it does
  not exist it returns the empty string and an error whose message contains the id; in
  both cases the directory entries, the mount table and the quotas of the store are what
  they were (only the \<open>stat\<close> call is logged).
\<close>

theorem VolumePath_lookup:
  "(let volPath = filepath_Join [storePath d, VolumesDirName, vol_id];
        res = VolumePath d vol_id s
    in (path_exists s volPath \<longrightarrow> fst res = (volPath, None))
     \<and> (\<not> path_exists s volPath \<longrightarrow>
          (\<exists>e. fst res = ([], Some e) \<and> sublist vol_id (Error e)))
     \<and> nodes (snd res) = nodes s
     \<and> mounts (snd res) = mounts s
     \<and> quotas (snd res) = quotas s)"
proof -
  define volPath where "volPath = filepath_Join [storePath d, VolumesDirName, vol_id]"
  let ?msg = "''volume does not exist `'' @ vol_id @ ''`: ''
                @ Error (PathError ''stat'' volPath ENOENT)"
  have mention: "sublist vol_id (Error (Errorf ?msg))"
    using sublist_between [of vol_id "''volume does not exist `''"] by simp
  have absent: "fst (VolumePath d vol_id s) = ([], Some (Errorf ?msg))"
    if "\<not> path_exists s volPath"
    using that by (simp add: VolumePath_eq volPath_def Let_def)
  have present: "fst (VolumePath d vol_id s) = (volPath, None)" if "path_exists s volPath"
    using that by (simp add: VolumePath_eq volPath_def Let_def)
  have frame: "nodes (snd (VolumePath d vol_id s)) = nodes s"
    "mounts (snd (VolumePath d vol_id s)) = mounts s"
    "quotas (snd (VolumePath d vol_id s)) = quotas s"
    by (simp_all add: VolumePath_eq Let_def)
  from absent mention present frame show ?thesis
    unfolding Let_def volPath_def [symmetric] by blast
qed

theorem VolumePath_lookup_witness:
  "path_exists example_store ''/store/volumes/a''
   \<and> fst (VolumePath example_driver ''a'' example_store) = (''/store/volumes/a'', None)
   \<and> \<not> path_exists example_store ''/store/volumes/zz''
   \<and> fst (VolumePath example_driver ''zz'' example_store)
       = ([], Some (Errorf
            ''volume does not exist `zz`: stat /store/volumes/zz: no such file or directory''))
   \<and> nodes (snd (VolumePath example_driver ''zz'' example_store)) = nodes example_store"
proof -
  have j1: "filepath_Join [storePath example_driver, VolumesDirName, ''a''] = ''/store/volumes/a''"
    by code_simp
  have j2: "filepath_Join [storePath example_driver, VolumesDirName, ''zz''] = ''/store/volumes/zz''"
    by code_simp
  have e1: "path_exists example_store ''/store/volumes/a''"
    by code_simp
  have e2: "\<not> path_exists example_store ''/store/volumes/zz''"
    by code_simp
  have v: "fst (VolumePath example_driver ''zz'' example_store)
       = ([], Some (Errorf
            ''volume does not exist `zz`: stat /store/volumes/zz: no such file or directory''))"
    by code_simp
  from VolumePath_lookup [where d = example_driver and vol_id = "''a''" and s = example_store]
       VolumePath_lookup [where d = example_driver and vol_id = "''zz''" and s = example_store]
       j1 j2 e1 e2 v
  show ?thesis by (simp add: Let_def)
qed

text \<open>
  C7. For every parent id and volume id, with \<open>volumePath\<close> the joined path
  store-path/volumes/id: when \<open>volumePath\<close> does not exist, its parent directory does
  and the environment does not refuse the \<open>mkdir\<close>, \<open>CreateVolume\<close> returns
  \<open>volumePath\<close> and no error, and the store has exactly one new entry, \<open>volumePath\<close>
  with mode \<open>0700\<close>; when \<open>volumePath\<close> already exists, it returns an error (wrapped
  as "creating volume") and the entries of the store are what they were.
\<close>

theorem CreateVolume_creates:
  "(let volumePath = filepath_Join [storePath d, VolumesDirName, vol_id];
        res = CreateVolume d parentID vol_id s
    in (\<not> path_exists s volumePath \<and> path_exists s (parent_path volumePath)
          \<and> map_of (faults s) (Mkdir volumePath perm_0700) = None
        \<longrightarrow> fst res = (volumePath, None)
            \<and> nodes (snd res) = nodes s @ [(volumePath, perm_0700)]
            \<and> path_exists (snd res) volumePath)
     \<and> (path_exists s volumePath
        \<longrightarrow> (\<exists>e. fst res = ([], Some (Wrapped e ''creating volume'')))
            \<and> nodes (snd res) = nodes s))"
  by (auto simp: CreateVolume_def lib_eqs Let_def result_of_Mkdir syscall_nodes path_exists_def
      split: option.splits)

theorem CreateVolume_creates_witness:
  "\<not> path_exists example_store ''/store/volumes/c''
   \<and> path_exists example_store (parent_path ''/store/volumes/c'')
   \<and> map_of (faults example_store) (Mkdir ''/store/volumes/c'' perm_0700) = None
   \<and> fst (CreateVolume example_driver ''a'' ''c'' example_store) = (''/store/volumes/c'', None)
   \<and> nodes (snd (CreateVolume example_driver ''a'' ''c'' example_store))
       = nodes example_store @ [(''/store/volumes/c'', 448)]
   \<and> path_exists example_store ''/store/volumes/a''
   \<and> fst (CreateVolume example_driver [] ''a'' example_store)
       = ([], Some (Wrapped (PathError ''mkdir'' ''/store/volumes/a'' EEXIST) ''creating volume''))
   \<and> nodes (snd (CreateVolume example_driver [] ''a'' example_store)) = nodes example_store"
proof -
  have j1: "filepath_Join [storePath example_driver, VolumesDirName, ''c''] = ''/store/volumes/c''"
    by code_simp
  have j2: "filepath_Join [storePath example_driver, VolumesDirName, ''a''] = ''/store/volumes/a''"
    by code_simp
  have h1: "\<not> path_exists example_store ''/store/volumes/c''"
    by code_simp
  have h2: "path_exists example_store (parent_path ''/store/volumes/c'')"
    by code_simp
  have h3: "map_of (faults example_store) (Mkdir ''/store/volumes/c'' perm_0700) = None"
    by (simp add: example_store_def)
  have h4: "path_exists example_store ''/store/volumes/a''"
    by code_simp
  have v: "fst (CreateVolume example_driver [] ''a'' example_store)
       = ([], Some (Wrapped (PathError ''mkdir'' ''/store/volumes/a'' EEXIST) ''creating volume''))"
    by code_simp
  have m: "perm_0700 = 448"
    by (simp add: perm_0700_def)
  from CreateVolume_creates [where d = example_driver and vol_id = "''c''" and s = example_store
         and parentID = "''a''"]
       CreateVolume_creates [where d = example_driver and vol_id = "''a''" and s = example_store
         and parentID = "[]"]
       j1 j2 h1 h2 h3 h4 v m
  show ?thesis by (simp add: Let_def)
qed

section \<open>Destroying an image\<close>

text \<open>
  C8. For every image path: when the unmount of its rootfs fails, \<open>DestroyImage\<close>
  returns that error (wrapped as "unmounting rootfs folder"), the directory entries and
  the mount table are exactly what they were before the call, and the unmount is the only
  call made: nothing was removed.
\<close>

theorem DestroyImage_unmount_failure:
  assumes "fst (syscall_Unmount (filepath_Join [imagePath, RootfsDir]) 0 s) = Some e"
  shows "fst (DestroyImage d imagePath s) = Some (Wrapped e ''unmounting rootfs folder'')
       \<and> nodes (snd (DestroyImage d imagePath s)) = nodes s
       \<and> mounts (snd (DestroyImage d imagePath s)) = mounts s
       \<and> map fst (new_trace s (snd (DestroyImage d imagePath s)))
           = [Unmount (filepath_Join [imagePath, RootfsDir]) 0]"
  using assms
  by (auto simp: DestroyImage_def lib_eqs Let_def syscall_nodes syscall_mounts syscall_trace
      new_trace_def)

theorem DestroyImage_unmount_failure_witness:
  "fst (syscall_Unmount (filepath_Join [''/store/images/img'', RootfsDir]) 0 busy_store)
     = Some (Errno EBUSY)
   \<and> fst (DestroyImage example_driver ''/store/images/img'' busy_store)
       = Some (Wrapped (Errno EBUSY) ''unmounting rootfs folder'')
   \<and> nodes (snd (DestroyImage example_driver ''/store/images/img'' busy_store))
       = nodes busy_store
   \<and> mounts (snd (DestroyImage example_driver ''/store/images/img'' busy_store))
       = mounts busy_store
   \<and> path_exists (snd (DestroyImage example_driver ''/store/images/img'' busy_store))
       ''/store/images/img/rootfs''"
proof -
  have h: "fst (syscall_Unmount (filepath_Join [''/store/images/img'', RootfsDir]) 0 busy_store)
     = Some (Errno EBUSY)"
    by code_simp
  have p: "path_exists busy_store ''/store/images/img/rootfs''"
    by code_simp
  from DestroyImage_unmount_failure [OF h, of example_driver] h p
  show ?thesis by (simp add: path_exists_def)
qed

text \<open>
  C6. For every image path, the calls \<open>DestroyImage\<close> makes are, in this order, the
  unmount of rootfs, the removal of rootfs, the recursive removal of the work directory
  and the recursive removal of the upper directory: the unmount always comes first, each
  later call is made only after all calls before it succeeded, and any failed call, the
  unmount or a removal after it, makes the operation return an error. It returns no error
  exactly when all four calls were made and succeeded; then the mount is gone from the
  mount table and the three directories from the store.
\<close>

theorem DestroyImage_order:
  assumes "DestroyImage d imagePath s = (err, s')"
  shows "(let rootfs = filepath_Join [imagePath, RootfsDir];
              work = filepath_Join [imagePath, WorkDir];
              upper = filepath_Join [imagePath, UpperDir];
              t = new_trace s s'
          in t \<noteq> []
           \<and> prefix (map fst t) [Unmount rootfs 0, Remove rootfs, RemoveAll work, RemoveAll upper]
           \<and> (\<forall>(c, r) \<in> set (butlast t). r = None)
           \<and> (\<forall>(c, r) \<in> set t. r \<noteq> None \<longrightarrow> err \<noteq> None)
           \<and> ((err = None) =
                (t = [(Unmount rootfs 0, None), (Remove rootfs, None),
                      (RemoveAll work, None), (RemoveAll upper, None)]))
           \<and> (err = None \<longrightarrow>
                mounts s' = remove_mount rootfs (mounts s)
                \<and> nodes s' =
                    filter (\<lambda>(q, m). \<not> under upper q)
                      (filter (\<lambda>(q, m). \<not> under work q)
                        (filter (\<lambda>(q, m). q \<noteq> rootfs) (nodes s)))))"
  using assms
  by (auto simp: DestroyImage_def lib_eqs Let_def syscall_trace syscall_nodes syscall_mounts
      new_trace_def split: if_splits)

theorem DestroyImage_order_witness:
  "fst (DestroyImage example_driver ''/store/images/img'' mounted_store) = None
   \<and> new_trace mounted_store (snd (DestroyImage example_driver ''/store/images/img'' mounted_store))
       = [(Unmount ''/store/images/img/rootfs'' 0, None),
          (Remove ''/store/images/img/rootfs'', None),
          (RemoveAll ''/store/images/img/workdir'', None),
          (RemoveAll ''/store/images/img/diff'', None)]
   \<and> mounts (snd (DestroyImage example_driver ''/store/images/img'' mounted_store)) = []
   \<and> nodes (snd (DestroyImage example_driver ''/store/images/img'' mounted_store))
       = nodes example_store
   \<and> fst (DestroyImage example_driver ''/store/images/img'' stuck_workdir_store)
       = Some (Wrapped (PathError ''unlinkat'' ''/store/images/img/workdir'' EACCES)
            ''deleting workdir folder'')
   \<and> new_trace stuck_workdir_store
        (snd (DestroyImage example_driver ''/store/images/img'' stuck_workdir_store))
       = [(Unmount ''/store/images/img/rootfs'' 0, None),
          (Remove ''/store/images/img/rootfs'', None),
          (RemoveAll ''/store/images/img/workdir'', Some EACCES)]"
proof -
  have j: "filepath_Join [''/store/images/img'', RootfsDir] = ''/store/images/img/rootfs''"
    "filepath_Join [''/store/images/img'', WorkDir] = ''/store/images/img/workdir''"
    "filepath_Join [''/store/images/img'', UpperDir] = ''/store/images/img/diff''"
    by code_simp+
  have ok: "fst (DestroyImage example_driver ''/store/images/img'' mounted_store) = None"
    by code_simp
  have stuck: "fst (DestroyImage example_driver ''/store/images/img'' stuck_workdir_store)
       = Some (Wrapped (PathError ''unlinkat'' ''/store/images/img/workdir'' EACCES)
            ''deleting workdir folder'')"
    by code_simp
  have t: "new_trace stuck_workdir_store
        (snd (DestroyImage example_driver ''/store/images/img'' stuck_workdir_store))
       = [(Unmount ''/store/images/img/rootfs'' 0, None),
          (Remove ''/store/images/img/rootfs'', None),
          (RemoveAll ''/store/images/img/workdir'', Some EACCES)]"
    by code_simp
  have n: "filter (\<lambda>(q, m). \<not> under ''/store/images/img/diff'' q)
             (filter (\<lambda>(q, m). \<not> under ''/store/images/img/workdir'' q)
               (filter (\<lambda>(q, m). q \<noteq> ''/store/images/img/rootfs'') (nodes mounted_store)))
           = nodes example_store"
    by code_simp
  have m: "remove_mount ''/store/images/img/rootfs'' (mounts mounted_store) = []"
    by code_simp
  have r1: "DestroyImage example_driver ''/store/images/img'' mounted_store
      = (None, snd (DestroyImage example_driver ''/store/images/img'' mounted_store))"
    using ok by (simp add: prod_eq_iff)
  have r2: "DestroyImage example_driver ''/store/images/img'' stuck_workdir_store
      = (fst (DestroyImage example_driver ''/store/images/img'' stuck_workdir_store),
         snd (DestroyImage example_driver ''/store/images/img'' stuck_workdir_store))"
    by simp
  from DestroyImage_order [OF r1] DestroyImage_order [OF r2] j ok stuck t n m
  show ?thesis by (simp add: Let_def)
qed

section \<open>Creating an image\<close>

lemma uint_uint64_of_int64: "uint (uint64_of_int64 x) = sint x mod 2 ^ 64"
  by (simp add: uint64_of_int64_def uint_sint take_bit_eq_mod)

lemma sint64_bounds: "- (2 ^ 63) \<le> sint (x :: 64 word) \<and> sint x < 2 ^ 63"
  using sint_ge [of x] sint_lt [of x] by simp

lemma uint64_of_int64_pos: "0 \<le> sint x \<Longrightarrow> uint (uint64_of_int64 x) = sint x"
  using sint64_bounds [of x] by (simp add: uint_uint64_of_int64)

lemma uint64_of_int64_neg: "sint x < 0 \<Longrightarrow> uint (uint64_of_int64 x) = 2 ^ 64 + sint x"
proof -
  assume neg: "sint x < 0"
  have "sint x mod 2 ^ 64 = (sint x + 2 ^ 64) mod 2 ^ 64"
    by simp
  also have "\<dots> = sint x + 2 ^ 64"
    using sint64_bounds [of x] neg by (intro mod_pos_pos_trivial) auto
  finally show ?thesis
    by (simp add: uint_uint64_of_int64)
qed

lemma applyDiskLimit_zero: "DiskLimit spec = 0 \<Longrightarrow> applyDiskLimit d spec s = (None, s)"
  by (simp add: applyDiskLimit_def)

text \<open>What stands in a log before the first call of some kind stands before every such call.\<close>

lemma before_first:
  assumes "t = pre @ (c, r) # post" and "P c"
    and "x \<in> set (takeWhile (\<lambda>(c, r). \<not> P c) t)"
  shows "x \<in> set pre"
  using assms by (auto simp: takeWhile_append split: if_splits dest: set_takeWhileD)

lemma CreateImage_quota_first:
  assumes "CreateImage d spec s = (err, s')" and "DiskLimit spec \<noteq> 0"
  shows "(\<forall>(c, r) \<in> set (new_trace s s'). \<not> (is_Mkdir c \<or> is_Mount c))
       \<or> (SetQuota (ImagePath spec) (uint64_of_int64 (DiskLimit spec)), None)
           \<in> set (takeWhile (\<lambda>(c, r). \<not> (is_Mkdir c \<or> is_Mount c)) (new_trace s s'))"
  using assms
  by (auto simp: CreateImage_def applyDiskLimit_def lib_eqs Let_def syscall_trace new_trace_def
      result_of_Stat split: if_splits)

lemma CreateImage_quota_set:
  assumes "CreateImage d spec s = (None, s')" and "DiskLimit spec \<noteq> 0"
  shows "map_of (quotas s') (ImagePath spec) = Some (uint64_of_int64 (DiskLimit spec))"
  using assms
  by (auto simp: CreateImage_def applyDiskLimit_def lib_eqs Let_def syscall_quotas
      result_of_Stat split: if_splits)

lemma CreateImage_no_quota:
  assumes "CreateImage d spec s = (err, s')" and "DiskLimit spec = 0"
  shows "quotas s' = quotas s"
  using assms
  by (auto simp: CreateImage_def applyDiskLimit_def lib_eqs Let_def syscall_quotas
      result_of_Stat split: if_splits)

lemma CreateImage_mount_failure_state:
  assumes "CreateImage d spec s = (Some (Wrapped e ''mounting overlay''), s')"
  shows "nodes s' = nodes s @ [(filepath_Join [ImagePath spec, UpperDir], perm_0700),
                               (filepath_Join [ImagePath spec, WorkDir], perm_0700),
                               (filepath_Join [ImagePath spec, RootfsDir], perm_0700)]
       \<and> mounts s' = mounts s"
  using assms
  by (auto simp: CreateImage_def applyDiskLimit_def lib_eqs Let_def syscall_nodes
      syscall_mounts result_of_Stat split: if_splits)

lemma CreateImage_mount_failure_trace:
  assumes "CreateImage d spec s = (Some (Wrapped e ''mounting overlay''), s')"
  shows "(\<forall>(c, r) \<in> set (new_trace s s'). \<not> is_removal c)
       \<and> (\<exists>dat en. e = Errno en
            \<and> last (new_trace s s')
                = (Mount ''overlay'' (filepath_Join [ImagePath spec, RootfsDir]) ''overlay'' 0 dat,
                   Some en))"
  using assms
  by (auto simp: CreateImage_def applyDiskLimit_def lib_eqs Let_def syscall_trace
      new_trace_def result_of_Stat split: if_splits)

lemma example_paths:
  "filepath_Join [''/store/images/img'', UpperDir] = ''/store/images/img/diff''"
  "filepath_Join [''/store/images/img'', WorkDir] = ''/store/images/img/workdir''"
  "filepath_Join [''/store/images/img'', RootfsDir] = ''/store/images/img/rootfs''"
  "filepath_Join [storePath example_driver, ImageDirName] = ''/store/images''"
  by code_simp+

text \<open>
  C1 (as the code has it). For every create-image invocation that returns the error of a
  failed overlay mount ("mounting overlay"): the upper, work and rootfs directories, each
  created with mode \<open>0700\<close> before the mount, are still in the image path when
  create-image returns; the store has exactly these three entries more than before, the
  mount table is unchanged, no removal call was made, and the last call made is the
  failed mount.
\<close>

theorem CreateImage_mount_failure_leaves_dirs:
  assumes "CreateImage d spec s = (Some (Wrapped e ''mounting overlay''), s')"
  shows "(let upperDir = filepath_Join [ImagePath spec, UpperDir];
              workDir = filepath_Join [ImagePath spec, WorkDir];
              rootfsDir = filepath_Join [ImagePath spec, RootfsDir]
          in nodes s' = nodes s @ [(upperDir, perm_0700), (workDir, perm_0700), (rootfsDir, perm_0700)]
           \<and> path_exists s' upperDir \<and> path_exists s' workDir \<and> path_exists s' rootfsDir
           \<and> mounts s' = mounts s
           \<and> (\<forall>(c, r) \<in> set (new_trace s s'). \<not> is_removal c)
           \<and> (\<exists>dat en. e = Errno en
                \<and> last (new_trace s s') = (Mount ''overlay'' rootfsDir ''overlay'' 0 dat, Some en)))"
proof -
  note st = CreateImage_mount_failure_state [OF assms]
  have ex: "path_exists s' (filepath_Join [ImagePath spec, UpperDir])"
    "path_exists s' (filepath_Join [ImagePath spec, WorkDir])"
    "path_exists s' (filepath_Join [ImagePath spec, RootfsDir])"
    using st by (simp_all add: path_exists_def)
  from st ex CreateImage_mount_failure_trace [OF assms] show ?thesis
    unfolding Let_def by blast
qed

theorem CreateImage_mount_failure_leaves_dirs_witness:
  "CreateImage example_driver example_spec mount_refused_store
     = (Some (Wrapped (Errno ENODEV) ''mounting overlay''),
        snd (CreateImage example_driver example_spec mount_refused_store))
   \<and> nodes (snd (CreateImage example_driver example_spec mount_refused_store))
       = nodes mount_refused_store
           @ [(''/store/images/img/diff'', 448), (''/store/images/img/workdir'', 448),
              (''/store/images/img/rootfs'', 448)]
   \<and> mounts (snd (CreateImage example_driver example_spec mount_refused_store)) = []"
proof -
  have f: "fst (CreateImage example_driver example_spec mount_refused_store)
      = Some (Wrapped (Errno ENODEV) ''mounting overlay'')"
    by code_simp
  have r: "CreateImage example_driver example_spec mount_refused_store
     = (Some (Wrapped (Errno ENODEV) ''mounting overlay''),
        snd (CreateImage example_driver example_spec mount_refused_store))"
    using f by (simp add: prod_eq_iff)
  have i: "ImagePath example_spec = ''/store/images/img''"
    by (simp add: example_spec_def)
  have m: "mounts mount_refused_store = []" "perm_0700 = 448"
    by (simp_all add: mount_refused_store_def example_store_def perm_0700_def)
  from CreateImage_mount_failure_leaves_dirs [OF r] r i m example_paths
  show ?thesis by (simp add: Let_def)
qed

text \<open>
  C1 as claimed fails: in the example store, with an environment that refuses the overlay
  mount, create-image returns the mount error and the image path still holds all three
  directories.
\<close>

theorem CreateImage_mount_failure_no_cleanup:
  "fst (CreateImage example_driver example_spec mount_refused_store)
     = Some (Wrapped (Errno ENODEV) ''mounting overlay'')
   \<and> path_exists (snd (CreateImage example_driver example_spec mount_refused_store))
       ''/store/images/img/diff''
   \<and> path_exists (snd (CreateImage example_driver example_spec mount_refused_store))
       ''/store/images/img/workdir''
   \<and> path_exists (snd (CreateImage example_driver example_spec mount_refused_store))
       ''/store/images/img/rootfs''
   \<and> \<not> path_exists mount_refused_store ''/store/images/img/diff''
   \<and> \<not> path_exists mount_refused_store ''/store/images/img/workdir''
   \<and> \<not> path_exists mount_refused_store ''/store/images/img/rootfs''"
  by code_simp

text \<open>
  C4 (as the code has it). A create-image spec carries one base volume path, not a chain.
  For every spec, every overlay mount that \<open>CreateImage\<close> attempts is the mount of
  source and type \<open>overlay\<close> on image-path/rootfs with flags \<open>0\<close> and the options
  \<open>lowerdir=\<close> that one base volume path, \<open>upperdir=\<close> image-path/diff and
  \<open>workdir=\<close> image-path/workdir; when create-image returns no error, that mount is
  the last call made and the newest entry of the mount table.
\<close>

theorem CreateImage_mount_data:
  assumes "CreateImage d spec s = (err, s')"
  shows "(let upperDir = filepath_Join [ImagePath spec, UpperDir];
              workDir = filepath_Join [ImagePath spec, WorkDir];
              rootfsDir = filepath_Join [ImagePath spec, RootfsDir];
              dat = ''lowerdir='' @ BaseVolumePath spec @ '',upperdir='' @ upperDir
                      @ '',workdir='' @ workDir
          in (\<forall>(c, r) \<in> set (new_trace s s').
                is_Mount c \<longrightarrow> c = Mount ''overlay'' rootfsDir ''overlay'' 0 dat)
           \<and> (err = None \<longrightarrow>
                last (new_trace s s') = (Mount ''overlay'' rootfsDir ''overlay'' 0 dat, None)
                \<and> mounts s' =
                    \<lparr>m_source = ''overlay'', m_target = rootfsDir, m_fstype = ''overlay'',
                      m_flags = 0, m_data = dat\<rparr> # mounts s))"
  using assms
  by (auto simp: CreateImage_def applyDiskLimit_def lib_eqs Let_def syscall_trace
      syscall_mounts new_trace_def result_of_Stat split: if_splits)

theorem CreateImage_mount_data_witness:
  "fst (CreateImage example_driver example_spec example_store) = None
   \<and> last (new_trace example_store (snd (CreateImage example_driver example_spec example_store)))
       = (example_mount, None)
   \<and> mounts (snd (CreateImage example_driver example_spec example_store))
       = mounts mounted_store"
proof -
  have f: "fst (CreateImage example_driver example_spec example_store) = None"
    by code_simp
  have r: "CreateImage example_driver example_spec example_store
     = (None, snd (CreateImage example_driver example_spec example_store))"
    using f by (simp add: prod_eq_iff)
  have i: "ImagePath example_spec = ''/store/images/img''"
    "BaseVolumePath example_spec = ''/store/volumes/b''"
    by (simp_all add: example_spec_def)
  have m: "mounts example_store = []"
    by (simp add: example_store_def)
  from CreateImage_mount_data [OF r] f i m example_paths
  show ?thesis by (simp add: Let_def example_mount_def mounted_store_def)
qed

text \<open>
  C4 as claimed fails for the chain of the two example volumes \<open>a\<close> and \<open>b\<close>, both
  present in the store. With the chain joined by a colon in the spec's field, create-image
  looks for one path of that name, returns "base volume path does not exist" and mounts
  nothing. With the top volume \<open>b\<close> in the field, it mounts with \<open>lowerdir\<close> naming
  \<open>b\<close> alone.
\<close>

theorem CreateImage_chain_not_mounted:
  "chain_lowerdir [''/store/volumes/a'', ''/store/volumes/b''] = BaseVolumePath chain_spec
   \<and> path_exists example_store ''/store/volumes/a''
   \<and> path_exists example_store ''/store/volumes/b''
   \<and> fst (CreateImage example_driver chain_spec example_store)
       = Some (Wrapped (PathError ''stat'' ''/store/volumes/a:/store/volumes/b'' ENOENT)
            ''base volume path does not exist'')
   \<and> mounts (snd (CreateImage example_driver chain_spec example_store)) = []
   \<and> map m_data (mounts (snd (CreateImage example_driver example_spec example_store)))
       = [''lowerdir=/store/volumes/b,upperdir=/store/images/img/diff,workdir=/store/images/img/workdir'']"
  by code_simp

text \<open>
  C5. For every create-image invocation: when the disk limit is positive, the size
  \<open>uint64(limit)\<close> that the driver asks the quota for equals the limit; every \<open>mkdir\<close>
  and every \<open>mount\<close> call it makes has the successful \<open>SetQuota\<close> on the image path,
  with that size, among the calls made before it; and when create-image returns no error
  the quota of the image path is that size. When the disk limit is \<open>0\<close>,
  \<open>applyDiskLimit\<close> returns no error and leaves the state as it is, in any state, and
  create-image leaves the quotas as they were.
\<close>

theorem CreateImage_quota_before_mount:
  assumes "CreateImage d spec s = (err, s')"
  shows "(let q = uint64_of_int64 (DiskLimit spec); t = new_trace s s'
          in (0 < sint (DiskLimit spec) \<longrightarrow>
                uint q = sint (DiskLimit spec)
                \<and> (\<forall>pre c r post. t = pre @ (c, r) # post \<and> (is_Mkdir c \<or> is_Mount c)
                      \<longrightarrow> (SetQuota (ImagePath spec) q, None) \<in> set pre)
                \<and> (err = None \<longrightarrow> map_of (quotas s') (ImagePath spec) = Some q))
           \<and> (DiskLimit spec = 0 \<longrightarrow>
                (\<forall>s0. applyDiskLimit d spec s0 = (None, s0))
                \<and> quotas s' = quotas s))"
proof -
  define q where "q = uint64_of_int64 (DiskLimit spec)"
  define t where "t = new_trace s s'"
  have size: "uint q = sint (DiskLimit spec)" if "0 < sint (DiskLimit spec)"
    using that by (simp add: q_def uint64_of_int64_pos)
  have order: "(SetQuota (ImagePath spec) q, None) \<in> set pre"
    if pos: "0 < sint (DiskLimit spec)" and split: "t = pre @ (c, r) # post"
      and kind: "is_Mkdir c \<or> is_Mount c" for pre c r post
  proof -
    from pos have nz: "DiskLimit spec \<noteq> 0"
      by auto
    from split have "(c, r) \<in> set t"
      by simp
    with kind CreateImage_quota_first [OF assms nz]
    have "(SetQuota (ImagePath spec) q, None)
            \<in> set (takeWhile (\<lambda>(c, r). \<not> (is_Mkdir c \<or> is_Mount c)) t)"
      unfolding q_def t_def by blast
    with before_first [OF split, of "\<lambda>c. is_Mkdir c \<or> is_Mount c"] kind
    show ?thesis by blast
  qed
  have stored: "map_of (quotas s') (ImagePath spec) = Some q"
    if "0 < sint (DiskLimit spec)" and "err = None"
  proof -
    from that(1) have nz: "DiskLimit spec \<noteq> 0"
      by auto
    from assms that(2) have "CreateImage d spec s = (None, s')"
      by simp
    from CreateImage_quota_set [OF this nz] show ?thesis
      by (simp add: q_def)
  qed
  have noop: "applyDiskLimit d spec s0 = (None, s0)" if "DiskLimit spec = 0" for s0
    using that by (rule applyDiskLimit_zero)
  have kept: "quotas s' = quotas s" if "DiskLimit spec = 0"
    using assms that by (rule CreateImage_no_quota)
  from size order stored noop kept show ?thesis
    unfolding Let_def q_def [symmetric] t_def [symmetric] by blast
qed

theorem CreateImage_quota_before_mount_witness:
  "0 < sint (DiskLimit limited_spec)
   \<and> uint (uint64_of_int64 (DiskLimit limited_spec)) = 1024
   \<and> fst (CreateImage example_driver limited_spec example_store) = None
   \<and> map_of (quotas (snd (CreateImage example_driver limited_spec example_store)))
       ''/store/images/img'' = Some 1024
   \<and> map fst (new_trace example_store (snd (CreateImage example_driver limited_spec example_store)))
       = [Stat ''/store/images/img'', Stat ''/store/volumes/b'', NewControl ''/store/images'',
          SetQuota ''/store/images/img'' 1024, Mkdir ''/store/images/img/diff'' 448,
          Mkdir ''/store/images/img/workdir'' 448, Mkdir ''/store/images/img/rootfs'' 448,
          example_mount]
   \<and> DiskLimit example_spec = 0
   \<and> applyDiskLimit example_driver example_spec example_store = (None, example_store)
   \<and> quotas (snd (CreateImage example_driver example_spec example_store)) = []"
proof -
  have pos: "0 < sint (DiskLimit limited_spec)"
    by (simp add: limited_spec_def example_spec_def)
  have f: "fst (CreateImage example_driver limited_spec example_store) = None"
    by code_simp
  have r1: "CreateImage example_driver limited_spec example_store
     = (None, snd (CreateImage example_driver limited_spec example_store))"
    using f by (simp add: prod_eq_iff)
  have r2: "CreateImage example_driver example_spec example_store
     = (fst (CreateImage example_driver example_spec example_store),
        snd (CreateImage example_driver example_spec example_store))"
    by simp
  have t: "map fst (new_trace example_store
                (snd (CreateImage example_driver limited_spec example_store)))
       = [Stat ''/store/images/img'', Stat ''/store/volumes/b'', NewControl ''/store/images'',
          SetQuota ''/store/images/img'' 1024, Mkdir ''/store/images/img/diff'' 448,
          Mkdir ''/store/images/img/workdir'' 448, Mkdir ''/store/images/img/rootfs'' 448,
          example_mount]"
    by code_simp
  have i: "ImagePath limited_spec = ''/store/images/img''" "DiskLimit limited_spec = 1024"
    "DiskLimit example_spec = 0" "quotas example_store = []"
    by (simp_all add: limited_spec_def example_spec_def example_store_def)
  have q: "uint64_of_int64 1024 = 1024"
    by (simp add: uint64_of_int64_def)
  from CreateImage_quota_before_mount [OF r1] CreateImage_quota_before_mount [OF r2]
    pos f t i q
  show ?thesis by (simp add: Let_def)
qed

text \<open>
  C10. For every spec with a negative disk limit, \<open>applyDiskLimit\<close> does not reject the
  limit. The size it asks the quota for is \<open>uint64(limit)\<close>, which is the limit modulo
  \<open>2 ^ 64\<close>, that is \<open>2 ^ 64 + limit\<close>, at least \<open>2 ^ 63\<close>. Whenever the quota control
  can be made, the driver goes on to call \<open>SetQuota\<close> on the image path with that size;
  it returns no error exactly when both quota calls succeeded, and then the quota of the
  image path is that size.
\<close>

theorem applyDiskLimit_negative:
  assumes "sint (DiskLimit spec) < 0"
  shows "(let q = uint64_of_int64 (DiskLimit spec);
              imagesPath = filepath_Join [storePath d, ImageDirName];
              res = applyDiskLimit d spec s;
              t = new_trace s (snd res)
          in uint q = sint (DiskLimit spec) mod 2 ^ 64
           \<and> uint q = 2 ^ 64 + sint (DiskLimit spec)
           \<and> 2 ^ 63 \<le> uint q
           \<and> (snd (fst (quota_NewControl imagesPath s)) = None \<longrightarrow>
                map fst t = [NewControl imagesPath, SetQuota (ImagePath spec) q])
           \<and> ((fst res = None) =
                (t = [(NewControl imagesPath, None), (SetQuota (ImagePath spec) q, None)]))
           \<and> (fst res = None \<longrightarrow> map_of (quotas (snd res)) (ImagePath spec) = Some q))"
proof -
  define q where "q = uint64_of_int64 (DiskLimit spec)"
  from assms have nz: "DiskLimit spec \<noteq> 0"
    by auto
  have m: "uint q = sint (DiskLimit spec) mod 2 ^ 64"
    by (simp add: q_def uint_uint64_of_int64)
  have w: "uint q = 2 ^ 64 + sint (DiskLimit spec)"
    using assms by (simp add: q_def uint64_of_int64_neg)
  have big: "2 ^ 63 \<le> uint q"
    using w sint64_bounds [of "DiskLimit spec"] by simp
  have calls:
    "(snd (fst (quota_NewControl (filepath_Join [storePath d, ImageDirName]) s)) = None \<longrightarrow>
         map fst (new_trace s (snd (applyDiskLimit d spec s)))
           = [NewControl (filepath_Join [storePath d, ImageDirName]), SetQuota (ImagePath spec) q])
     \<and> ((fst (applyDiskLimit d spec s) = None) =
         (new_trace s (snd (applyDiskLimit d spec s))
           = [(NewControl (filepath_Join [storePath d, ImageDirName]), None),
              (SetQuota (ImagePath spec) q, None)]))
     \<and> (fst (applyDiskLimit d spec s) = None \<longrightarrow>
          map_of (quotas (snd (applyDiskLimit d spec s))) (ImagePath spec) = Some q)"
    using nz
    by (auto simp: applyDiskLimit_def lib_eqs Let_def syscall_trace syscall_quotas new_trace_def
        q_def)
  from m w big calls show ?thesis
    unfolding Let_def q_def [symmetric] by blast
qed

theorem applyDiskLimit_negative_witness:
  "sint (DiskLimit negative_spec) < 0
   \<and> uint (uint64_of_int64 (DiskLimit negative_spec)) = 18446744073709551615
   \<and> fst (applyDiskLimit example_driver negative_spec example_store) = None
   \<and> map_of (quotas (snd (applyDiskLimit example_driver negative_spec example_store)))
       ''/store/images/img'' = Some (uint64_of_int64 (- 1))
   \<and> fst (CreateImage example_driver negative_spec example_store) = None"
proof -
  have neg: "sint (DiskLimit negative_spec) < 0"
    by (simp add: negative_spec_def example_spec_def)
  have v: "sint (DiskLimit negative_spec) = - 1"
    by (simp add: negative_spec_def example_spec_def)
  have f: "fst (applyDiskLimit example_driver negative_spec example_store) = None"
    by code_simp
  have g: "fst (CreateImage example_driver negative_spec example_store) = None"
    by code_simp
  have i: "ImagePath negative_spec = ''/store/images/img''" "DiskLimit negative_spec = - 1"
    by (simp_all add: negative_spec_def example_spec_def)
  from applyDiskLimit_negative [OF neg, of example_driver example_store] neg v f g i
  show ?thesis by (simp add: Let_def)
qed

end
